theory Spec2Isabelle
  imports Complex_Main "HOL-Library.Word" "HOL-Library.Multiset"
begin

section \<open>Common conventions\<close>

text \<open>
  Go strings are byte strings (\<open>string\<close>). A \<open>time.Time\<close> is an abstract instant (\<open>int\<close>).
  A \<open>float64\<close> or \<open>float32\<close> that is only stored, added up or compared is modelled by
  the rational it denotes; where the code divides and subtracts before it compares (the
  adaptive threshold), the arithmetic is a parameter. Library functions whose behaviour
  depends on Unicode tables (\<open>strings.ToLower\<close>, \<open>strings.TrimSpace\<close>) are parameters
  too. An \<open>error\<close> value keeps
  the format string of \<open>fmt.Errorf\<close> and its arguments; an error coming from a library
  (redis, asynq, the storage client, the OCR engine) is \<open>Foreign\<close>. A run-time panic of the
  Go program is the error \<open>Panic\<close>. Calls that leave the process (blob store, broker, sidecar
  key/value store) are recorded, in the order they are issued, as a list of \<open>effect\<close>s next to
  the returned value; what the outside world answers is a parameter of the operation.
\<close>

type_synonym time = int

datatype arg = ArgS string | ArgD int | ArgW error
  and error = Errorf string "arg list" | Foreign string | Panic string

text \<open>A value of type \<open>interface{}\<close>, tagged with its dynamic type.\<close>

datatype any =
    VString string
  | VInt int
  | VInt64 int
  | VFloat64 rat
  | VMaps "(string \<times> any) list list"

text \<open>The type assertions \<open>v.(string)\<close>, \<open>v.(float64)\<close>, \<open>v.(int64)\<close> and \<open>v.(int)\<close>
  in their two-result form, applied to the result of a map lookup: they fail on a missing
  key and on a value of another dynamic type.\<close>

definition as_string :: "any option \<Rightarrow> string option" where
  "as_string v = (case v of Some (VString s) \<Rightarrow> Some s | _ \<Rightarrow> None)"

definition as_float64 :: "any option \<Rightarrow> rat option" where
  "as_float64 v = (case v of Some (VFloat64 x) \<Rightarrow> Some x | _ \<Rightarrow> None)"

definition as_int64 :: "any option \<Rightarrow> int option" where
  "as_int64 v = (case v of Some (VInt64 n) \<Rightarrow> Some n | _ \<Rightarrow> None)"

definition as_int :: "any option \<Rightarrow> int option" where
  "as_int v = (case v of Some (VInt n) \<Rightarrow> Some n | _ \<Rightarrow> None)"

section \<open>pkg/queue: the task queue\<close>

record Task =
  t_ID :: string
  t_Type :: string
  t_Priority :: int
  t_Payload :: "string \<rightharpoonup> any"
  t_Metadata :: "string \<rightharpoonup> string"
  t_CreatedAt :: time

record TaskStatus =
  ts_TaskID :: string
  ts_Status :: string
  ts_Progress :: rat
  ts_Error :: string
  ts_StartedAt :: time
  ts_FinishedAt :: time

text \<open>The broker library's view of a task (asynq).\<close>

datatype TaskState =
    TaskStateActive | TaskStatePending | TaskStateScheduled | TaskStateRetry
  | TaskStateArchived | TaskStateCompleted | TaskStateAggregating

record TaskInfo =
  ti_ID :: string
  ti_State :: TaskState
  ti_NextProcessAt :: time
  ti_CompletedAt :: time
  ti_LastErr :: string

datatype Option =
    ProcessIn nat      \<comment> \<open>seconds\<close>
  | MaxRetry int
  | Timeout nat        \<comment> \<open>minutes\<close>
  | TaskID string
  | Queue string

record asynq_Task =
  at_typename :: string
  at_payload :: string
  at_opts :: "Option list"

datatype redis_reply = RedisError string | RedisNil | RedisBytes string

datatype effect =
    StorageStore string string      \<comment> \<open>key, bytes\<close>
  | ClientEnqueue asynq_Task
  | RedisSet string string nat      \<comment> \<open>key, value, time to live in hours\<close>

text \<open>What the collaborators of the queue answer: JSON encoding, the broker client, the
  broker inspector, the redis client, and the clock.\<close>

record queue_deps =
  marshal_task :: "Task \<Rightarrow> string + string"
  marshal_status :: "TaskStatus \<Rightarrow> string + string"
  unmarshal_status :: "string \<Rightarrow> string + TaskStatus"
  client_EnqueueContext :: "asynq_Task \<Rightarrow> string + TaskInfo"
  inspector_GetTaskInfo :: "string \<Rightarrow> string \<Rightarrow> string + TaskInfo"
  redis_Get :: "string \<Rightarrow> redis_reply"
  redis_Set :: "string \<Rightarrow> string \<Rightarrow> nat \<Rightarrow> string option"
  time_Now :: time

definition TaskTypeDocumentProcess :: string where
  "TaskTypeDocumentProcess = ''document:process''"

text \<open>The \<open>switch task.Priority\<close> of \<open>Enqueue\<close>, appended to the fixed options.\<close>

definition Enqueue_opts :: "Task \<Rightarrow> Option list" where
  "Enqueue_opts task =
     [ProcessIn 1, MaxRetry 3, Timeout 30, TaskID (t_ID task)] @
     (if t_Priority task = 1 then [Queue ''critical'']
      else if t_Priority task = 2 then [Queue ''default'']
      else [Queue ''low''])"

definition Enqueue :: "queue_deps \<Rightarrow> Task \<Rightarrow> effect list \<times> (error + Task)" where
  "Enqueue q task =
     (case marshal_task q task of
        Inl e \<Rightarrow> ([], Inl (Errorf ''failed to marshal task: %w'' [ArgW (Foreign e)]))
      | Inr payload \<Rightarrow>
          (let t = \<lparr>at_typename = t_Type task, at_payload = payload,
                    at_opts = Enqueue_opts task\<rparr>
           in case client_EnqueueContext q t of
                Inl e \<Rightarrow> ([ClientEnqueue t],
                           Inl (Errorf ''failed to enqueue task: %w'' [ArgW (Foreign e)]))
              | Inr info \<Rightarrow> ([ClientEnqueue t], Inr (task\<lparr>t_ID := ti_ID info\<rparr>))))"

definition status_key :: "string \<Rightarrow> string" where
  "status_key taskID = ''task_status:'' @ taskID"

definition SaveFinalStatus :: "queue_deps \<Rightarrow> TaskStatus \<Rightarrow> effect list \<times> error option" where
  "SaveFinalStatus q status =
     (let key = status_key (ts_TaskID status) in
      case marshal_status q status of
        Inl e \<Rightarrow> ([], Some (Errorf ''failed to marshal status: %w'' [ArgW (Foreign e)]))
      | Inr data \<Rightarrow>
          (case redis_Set q key data 24 of
             Some e \<Rightarrow> ([RedisSet key data 24],
                        Some (Errorf ''failed to save status: %w'' [ArgW (Foreign e)]))
           | None \<Rightarrow> ([RedisSet key data 24], None)))"

definition convertAsynqStatus :: "queue_deps \<Rightarrow> TaskInfo \<Rightarrow> TaskStatus" where
  "convertAsynqStatus q info =
     (let status = \<lparr>ts_TaskID = ti_ID info, ts_Status = '''', ts_Progress = 0,
                     ts_Error = '''', ts_StartedAt = ti_NextProcessAt info,
                     ts_FinishedAt = time_Now q\<rparr>
      in case ti_State info of
           TaskStatePending \<Rightarrow> status\<lparr>ts_Status := ''pending''\<rparr>
         | TaskStateActive \<Rightarrow> status\<lparr>ts_Status := ''running'', ts_Progress := 1 / 2\<rparr>
         | TaskStateCompleted \<Rightarrow>
             status\<lparr>ts_Status := ''completed'', ts_Progress := 1,
                    ts_FinishedAt := ti_CompletedAt info\<rparr>
         | TaskStateRetry \<Rightarrow> status\<lparr>ts_Status := ''failed'', ts_Error := ti_LastErr info\<rparr>
         | _ \<Rightarrow> status)"

text \<open>The loop of \<open>GetTaskStatus\<close> over the queue names, on the variables \<open>info\<close> and
  \<open>lastErr\<close>: a failed lookup overwrites both, a successful one leaves the loop.\<close>

fun probe_queues ::
  "queue_deps \<Rightarrow> string \<Rightarrow> string list \<Rightarrow> TaskInfo option \<times> string option
     \<Rightarrow> TaskInfo option \<times> string option" where
  "probe_queues q taskID [] (info, lastErr) = (info, lastErr)"
| "probe_queues q taskID (queueName # rest) (info, lastErr) =
     (case inspector_GetTaskInfo q queueName taskID of
        Inr i \<Rightarrow> (Some i, lastErr)
      | Inl e \<Rightarrow> probe_queues q taskID rest (None, Some e))"

definition GetTaskStatus :: "queue_deps \<Rightarrow> string \<Rightarrow> effect list \<times> (error + TaskStatus)" where
  "GetTaskStatus q taskID =
     (case redis_Get q (status_key taskID) of
        RedisError e \<Rightarrow>
          ([], Inl (Errorf ''failed to get status from redis: %w'' [ArgW (Foreign e)]))
      | RedisBytes data \<Rightarrow>
          (case unmarshal_status q data of
             Inl e \<Rightarrow> ([], Inl (Errorf ''failed to unmarshal status: %w'' [ArgW (Foreign e)]))
           | Inr status \<Rightarrow> ([], Inr status))
      | RedisNil \<Rightarrow>
          (case probe_queues q taskID [''critical'', ''default'', ''low''] (None, None) of
             (_, Some lastErr) \<Rightarrow>
               ([], Inl (Errorf ''task not found in any queue: %w'' [ArgW (Foreign lastErr)]))
           | (None, None) \<Rightarrow> ([], Inl (Panic ''nil pointer dereference''))
           | (Some info, None) \<Rightarrow>
               (let status = convertAsynqStatus q info
                in (fst (SaveFinalStatus q status), Inr status))))"

section \<open>Strings: the library functions the service uses\<close>

text \<open>Decimal rendering, as \<open>%d\<close> prints an integer.\<close>

fun digits :: "nat \<Rightarrow> string" where
  "digits n = (if n < 10 then [char_of (48 + n)]
               else digits (n div 10) @ [char_of (48 + n mod 10)])"

declare digits.simps [simp del]

definition Itoa :: "int \<Rightarrow> string" where
  "Itoa i = (if i < 0 then CHR ''-'' # digits (nat (- i)) else digits (nat i))"

text \<open>\<open>filepath.Ext\<close>: the suffix from the last dot of the last path element, scanning
  backwards and stopping at a path separator.\<close>

fun Ext_scan :: "string \<Rightarrow> string \<Rightarrow> string" where
  "Ext_scan [] suffix = []"
| "Ext_scan (c # before) suffix =
     (if c = CHR ''/'' then []
      else if c = CHR ''.'' then c # suffix
      else Ext_scan before (c # suffix))"

definition Ext :: "string \<Rightarrow> string" where
  "Ext path = Ext_scan (rev path) []"

section \<open>internal/service/document: the ingest service\<close>

record ProcessingTask =
  pt_ID :: string
  pt_Status :: string
  pt_Type :: string
  pt_Priority :: int
  pt_Progress :: rat
  pt_Error :: string
  pt_Metadata :: "string \<rightharpoonup> string"
  pt_CreatedAt :: time
  pt_UpdatedAt :: time

definition StatusPending :: string where "StatusPending = ''pending''"
definition StatusRunning :: string where "StatusRunning = ''running''"
definition StatusCompleted :: string where "StatusCompleted = ''completed''"
definition StatusFailed :: string where "StatusFailed = ''failed''"
definition StatusCancelled :: string where "StatusCancelled = ''cancelled''"

record ServiceConfig =
  MaxFileSize :: int
  AllowedTypes :: "string list"
  StoragePath :: string
  QueuePriority :: int
  MaxConcurrent :: int
  ProcessTimeout :: int       \<comment> \<open>minutes\<close>
  RetentionPeriod :: int      \<comment> \<open>minutes\<close>

record FileHeader =
  fh_Filename :: string
  fh_Size :: int

text \<open>The collaborators of the service: its queue, the blob store's answer to \<open>Store\<close>
  (key, then bytes), the identifier minted by \<open>uuid.New\<close>, the clock readings taken for
  \<open>CreatedAt\<close>, \<open>UpdatedAt\<close> and \<open>StartedAt\<close>, and the Go library's
  \<open>strings.ToLower\<close>, whose Unicode case mapping is not spelled out here: every property
  below holds whatever function it is.\<close>

record service_deps =
  sd_queue :: queue_deps
  strings_ToLower :: "string \<Rightarrow> string"
  storage_Store :: "string \<Rightarrow> string \<Rightarrow> string + string"
  uuid_New :: string
  now_CreatedAt :: time
  now_UpdatedAt :: time
  now_StartedAt :: time

text \<open>The configuration literal of \<open>NewService\<close> (for a nil argument) and of
  \<open>GetService\<close>; fields the literal does not mention have their zero value.\<close>

definition default_ServiceConfig :: ServiceConfig where
  "default_ServiceConfig =
     \<lparr>MaxFileSize = 50 * 1024 * 1024,
      AllowedTypes = [''.pdf'', ''.doc'', ''.docx'', ''.jpg'', ''.jpeg'', ''.png'', ''.tiff''],
      StoragePath = [],
      QueuePriority = 0,
      MaxConcurrent = 5,
      ProcessTimeout = 30,
      RetentionPeriod = 24 * 60\<rparr>"

definition NewService :: "ServiceConfig option \<Rightarrow> ServiceConfig" where
  "NewService cfg = (case cfg of None \<Rightarrow> default_ServiceConfig | Some c \<Rightarrow> c)"

definition GetService :: ServiceConfig where
  "GetService = NewService (Some default_ServiceConfig)"

definition validateFile ::
  "(string \<Rightarrow> string) \<Rightarrow> ServiceConfig \<Rightarrow> FileHeader \<Rightarrow> error option" where
  "validateFile ToLower cfg header =
     (if fh_Size header > MaxFileSize cfg
      then Some (Errorf ''file size exceeds maximum limit of %d bytes'' [ArgD (MaxFileSize cfg)])
      else let ext = ToLower (Ext (fh_Filename header))
           in if ext \<in> set (AllowedTypes cfg) then None
              else Some (Errorf ''unsupported file type: %s'' [ArgS ext]))"

definition ProcessFile ::
  "service_deps \<Rightarrow> ServiceConfig \<Rightarrow> string \<Rightarrow> FileHeader
     \<Rightarrow> effect list \<times> (error + ProcessingTask)" where
  "ProcessFile s cfg file header =
     (case validateFile (strings_ToLower s) cfg header of
        Some err \<Rightarrow> ([], Inl err)
      | None \<Rightarrow>
          (let taskID = uuid_New s;
               task = \<lparr>pt_ID = taskID, pt_Status = StatusPending,
                       pt_Type = ''document:process'', pt_Priority = QueuePriority cfg,
                       pt_Progress = 0, pt_Error = [],
                       pt_Metadata = [''filename'' \<mapsto> fh_Filename header,
                                      ''size'' \<mapsto> Itoa (fh_Size header),
                                      ''type'' \<mapsto> Ext (fh_Filename header)],
                       pt_CreatedAt = now_CreatedAt s, pt_UpdatedAt = now_UpdatedAt s\<rparr>;
               stored = [StorageStore (fh_Filename header) file]
           in case storage_Store s (fh_Filename header) file of
                Inl e \<Rightarrow> (stored, Inl (Errorf ''failed to store file: %w'' [ArgW (Foreign e)]))
              | Inr fileID \<Rightarrow>
                  (let queueTask =
                         \<lparr>t_ID = taskID, t_Type = pt_Type task,
                          t_Priority = pt_Priority task,
                          t_Payload = [''fileId'' \<mapsto> VString fileID,
                                       ''filename'' \<mapsto> VString (fh_Filename header),
                                       ''size'' \<mapsto> VInt64 (fh_Size header),
                                       ''type'' \<mapsto> VString (Ext (fh_Filename header))],
                          t_Metadata = pt_Metadata task,
                          t_CreatedAt = pt_CreatedAt task\<rparr>
                   in case Enqueue (sd_queue s) queueTask of
                        (enqueued, Inl e) \<Rightarrow>
                          (stored @ enqueued,
                           Inl (Errorf ''failed to enqueue task: %w'' [ArgW e]))
                      | (enqueued, Inr _) \<Rightarrow>
                          (let initialStatus =
                                 \<lparr>ts_TaskID = taskID, ts_Status = ''pending'',
                                  ts_Progress = 0, ts_Error = [],
                                  ts_StartedAt = now_StartedAt s, ts_FinishedAt = 0\<rparr>
                           in (stored @ enqueued @
                                 fst (SaveFinalStatus (sd_queue s) initialStatus),
                               Inr task)))))"

definition GetProcessingStatus ::
  "queue_deps \<Rightarrow> string \<Rightarrow> effect list \<times> (error + ProcessingTask)" where
  "GetProcessingStatus q taskID =
     (case GetTaskStatus q taskID of
        (effs, Inl err) \<Rightarrow> (effs, Inl (Errorf ''failed to get task status: %w'' [ArgW err]))
      | (effs, Inr status) \<Rightarrow>
          (let taskStatus =
                 (if ts_Status status = ''pending'' then StatusPending
                  else if ts_Status status = ''active'' then StatusRunning
                  else if ts_Status status = ''completed'' then StatusCompleted
                  else if ts_Status status = ''failed'' then StatusFailed
                  else StatusPending)
           in (effs, Inr \<lparr>pt_ID = ts_TaskID status, pt_Status = taskStatus,
                          pt_Type = ''document:process'', pt_Priority = 0,
                          pt_Progress = ts_Progress status, pt_Error = ts_Error status,
                          pt_Metadata = Map.empty,
                          pt_CreatedAt = ts_StartedAt status,
                          pt_UpdatedAt = ts_FinishedAt status\<rparr>)))"

section \<open>internal/models and pkg/converters: chunks and the normalizer\<close>

record DocumentChunk =
  dc_Content :: string
  dc_Metadata :: "string \<rightharpoonup> any"

record ChunkContent =
  cc_Text :: string
  cc_Position :: int
  cc_Type :: string
  cc_Metadata :: "string \<rightharpoonup> any"

text \<open>\<open>Sections\<close> is filled by ranging over a Go map, whose order is not fixed: the model
  keeps the set of its elements.\<close>

record DocumentMetadata =
  dm_FileName :: string
  dm_FileType :: string
  dm_FileSize :: int
  dm_PageCount :: int
  dm_Sections :: "string set"
  dm_Language :: string
  dm_Confidence :: rat
  dm_ProcessingMs :: int

record ProcessedDocument =
  pd_TaskID :: string
  pd_Status :: string
  pd_Content :: "ChunkContent list"
  pd_Metadata :: DocumentMetadata
  pd_ProcessedAt :: time

text \<open>The first half of the loop body of \<open>Convert\<close>: the content block of chunk \<open>i\<close>.\<close>

definition convert_chunk :: "nat \<Rightarrow> DocumentChunk \<Rightarrow> ChunkContent" where
  "convert_chunk i chunk =
     (let content = \<lparr>cc_Text = dc_Content chunk, cc_Position = int i + 1, cc_Type = [],
                      cc_Metadata = dc_Metadata chunk\<rparr>
      in case dc_Metadata chunk ''pageNumber'' of
           Some pageNum \<Rightarrow>
             content\<lparr>cc_Type := ''page'',
                     cc_Metadata := (cc_Metadata content)(''pageNumber'' \<mapsto> pageNum)\<rparr>
         | None \<Rightarrow>
             (case dc_Metadata chunk ''imageType'' of
                Some imgType \<Rightarrow>
                  content\<lparr>cc_Type := ''image'',
                          cc_Metadata := (cc_Metadata content)(''imageType'' \<mapsto> imgType)\<rparr>
              | None \<Rightarrow> content))"

text \<open>The loop of \<open>Convert\<close> from index \<open>i\<close> on, over \<open>doc.Content\<close>, \<open>sections\<close> and
  \<open>totalConfidence\<close>. The two type assertions succeed on a string and on a float64 only.\<close>

fun Convert_loop ::
  "nat \<Rightarrow> DocumentChunk list \<Rightarrow> ChunkContent list \<times> string set \<times> rat
     \<Rightarrow> ChunkContent list \<times> string set \<times> rat" where
  "Convert_loop i [] acc = acc"
| "Convert_loop i (chunk # rest) (content, sections, totalConfidence) =
     Convert_loop (Suc i) rest
       (content @ [convert_chunk i chunk],
        (case as_string (dc_Metadata chunk ''section'') of
           Some section \<Rightarrow> insert section sections
         | None \<Rightarrow> sections),
        (case as_float64 (dc_Metadata chunk ''confidence'') of
           Some conf \<Rightarrow> totalConfidence + conf
         | None \<Rightarrow> totalConfidence))"

text \<open>The last block of \<open>Convert\<close>: the document's basic information, read from the
  metadata of the first chunk.\<close>

definition basic_info :: "(string \<rightharpoonup> any) \<Rightarrow> DocumentMetadata \<Rightarrow> DocumentMetadata" where
  "basic_info first meta =
     (let m1 = (case as_string (first ''filename'') of
                  Some fileName \<Rightarrow> meta\<lparr>dm_FileName := fileName\<rparr>
                | None \<Rightarrow> meta);
          m2 = (case as_string (first ''type'') of
                  Some fileType \<Rightarrow> m1\<lparr>dm_FileType := fileType\<rparr>
                | None \<Rightarrow> m1);
          m3 = (case as_int64 (first ''size'') of
                  Some fileSize \<Rightarrow> m2\<lparr>dm_FileSize := fileSize\<rparr>
                | None \<Rightarrow> m2)
      in (case as_int (first ''pageCount'') of
            Some pageCount \<Rightarrow> m3\<lparr>dm_PageCount := pageCount\<rparr>
          | None \<Rightarrow> m3))"

definition Convert :: "time \<Rightarrow> DocumentChunk list \<Rightarrow> error + ProcessedDocument" where
  "Convert now chunks =
     (if length chunks = 0 then Inl (Errorf ''no chunks to convert'' [])
      else
        (let meta0 = \<lparr>dm_FileName = [], dm_FileType = [], dm_FileSize = 0, dm_PageCount = 0,
                       dm_Sections = {}, dm_Language = [], dm_Confidence = 1,
                       dm_ProcessingMs = 0\<rparr>;
             (content, sections, totalConfidence) = Convert_loop 0 chunks ([], {}, 0);
             meta1 = meta0\<lparr>dm_Sections := sections\<rparr>;
             meta2 = (if length chunks > 0
                      then meta1\<lparr>dm_Confidence := totalConfidence / of_nat (length chunks)\<rparr>
                      else meta1);
             first = dc_Metadata (hd chunks);
             meta3 = (if length chunks > 0 \<and> dom first \<noteq> {}
                      then basic_info first meta2 else meta2)
         in Inr \<lparr>pd_TaskID = [], pd_Status = ''completed'', pd_Content = content,
                 pd_Metadata = meta3, pd_ProcessedAt = now\<rparr>))"

text \<open>The confidence a chunk contributes to \<open>totalConfidence\<close>.\<close>

definition chunk_confidence :: "DocumentChunk \<Rightarrow> rat option" where
  "chunk_confidence chunk = as_float64 (dc_Metadata chunk ''confidence'')"

definition confidence_or_zero :: "DocumentChunk \<Rightarrow> rat" where
  "confidence_or_zero c = (case chunk_confidence c of Some x \<Rightarrow> x | None \<Rightarrow> 0)"

text \<open>The section a chunk contributes to \<open>sections\<close>.\<close>

definition chunk_section :: "DocumentChunk \<Rightarrow> string set" where
  "chunk_section c =
     (case as_string (dc_Metadata c ''section'') of Some s \<Rightarrow> {s} | None \<Rightarrow> {})"

section \<open>internal/agent/document/pdf: the PDF extractor\<close>

text \<open>
  What the PDF library answers for a page: a null page, its plain text, or an error of
  \<open>GetPlainText\<close>. A file is given by what \<open>io.ReadAll\<close> and \<open>pdf.NewReader\<close> return for
  it and by the hex digest of its content.

  \<open>Process\<close> starts one goroutine per page; the collector appends the chunks in the order
  in which they reach the channel, which is the order in which the scheduler lets the
  workers finish. The relation \<open>workers\<close> has one rule for each way a pending worker can
  finish, in any order: its context is done and it returns the context's error; its page is
  null; extracting the text fails, which records the group's first error and cancels the
  context; or it sends its chunk. The context may also be cancelled from outside at any
  moment. The state is the set of page numbers whose worker has not finished, the channel's
  content, the group's first error and whether the context is done; the result is what the
  collector and \<open>g.Wait\<close> see when no worker is left.
\<close>

datatype page = NullPage | PlainText string | TextError string

record pdf_file =
  ReadAll :: "string + string"
  NewReader :: "string + page list"
  Sum256_hex :: string

definition page_chunk :: "string \<Rightarrow> nat \<Rightarrow> string \<Rightarrow> DocumentChunk" where
  "page_chunk hashStr pageNum text =
     \<lparr>dc_Content = text,
      dc_Metadata = [''page'' \<mapsto> VInt (int pageNum), ''hash'' \<mapsto> VString hashStr,
                     ''section'' \<mapsto> VString (''page_'' @ Itoa (int pageNum))]\<rparr>"

definition first_error :: "error option \<Rightarrow> error \<Rightarrow> error option" where
  "first_error err e = (case err of None \<Rightarrow> Some e | Some e0 \<Rightarrow> Some e0)"

inductive workers ::
  "page list \<Rightarrow> string \<Rightarrow> nat set \<Rightarrow> DocumentChunk list \<Rightarrow> error option \<Rightarrow> bool
     \<Rightarrow> DocumentChunk list \<times> error option \<Rightarrow> bool"
  for pages :: "page list" and hashStr :: string where
  finished:
    "workers pages hashStr {} chan err cancelled (chan, err)"
| parent_cancelled:
    "workers pages hashStr pending chan err True r
       \<Longrightarrow> workers pages hashStr pending chan err False r"
| worker_cancelled:
    "n \<in> pending
       \<Longrightarrow> workers pages hashStr (pending - {n}) chan
             (first_error err (Foreign ''context canceled'')) True r
       \<Longrightarrow> workers pages hashStr pending chan err True r"
| null_page:
    "n \<in> pending \<Longrightarrow> pages ! (n - 1) = NullPage
       \<Longrightarrow> workers pages hashStr (pending - {n}) chan err cancelled r
       \<Longrightarrow> workers pages hashStr pending chan err cancelled r"
| text_failed:
    "n \<in> pending \<Longrightarrow> pages ! (n - 1) = TextError e
       \<Longrightarrow> workers pages hashStr (pending - {n}) chan
             (first_error err
                (Errorf ''failed to get text from page %d: %w'' [ArgD (int n), ArgW (Foreign e)]))
             True r
       \<Longrightarrow> workers pages hashStr pending chan err cancelled r"
| chunk_sent:
    "n \<in> pending \<Longrightarrow> pages ! (n - 1) = PlainText plain
       \<Longrightarrow> workers pages hashStr (pending - {n}) (chan @ [page_chunk hashStr n plain])
             err cancelled r
       \<Longrightarrow> workers pages hashStr pending chan err cancelled r"

definition cleanText :: "string \<Rightarrow> string" where
  "cleanText text = text"

definition postProcessChunks :: "DocumentChunk list \<Rightarrow> DocumentChunk list" where
  "postProcessChunks chunks =
     map (\<lambda>chunk. \<lparr>dc_Content = cleanText (dc_Content chunk),
                    dc_Metadata = dc_Metadata chunk\<rparr>) chunks"

inductive Process_pdf :: "pdf_file \<Rightarrow> error + DocumentChunk list \<Rightarrow> bool" where
  read_failed:
    "ReadAll file = Inl e \<Longrightarrow> Process_pdf file (Inl (Foreign e))"
| open_failed:
    "ReadAll file = Inr content \<Longrightarrow> NewReader file = Inl e
       \<Longrightarrow> Process_pdf file (Inl (Foreign e))"
| page_failed:
    "ReadAll file = Inr content \<Longrightarrow> NewReader file = Inr pages
       \<Longrightarrow> workers pages (Sum256_hex file) {1..length pages} [] None cancelled (chunks, Some e)
       \<Longrightarrow> Process_pdf file (Inl e)"
| extracted:
    "ReadAll file = Inr content \<Longrightarrow> NewReader file = Inr pages
       \<Longrightarrow> workers pages (Sum256_hex file) {1..length pages} [] None cancelled (chunks, None)
       \<Longrightarrow> Process_pdf file (Inr (postProcessChunks chunks))"

definition chunk_page :: "DocumentChunk \<Rightarrow> int option" where
  "chunk_page chunk = as_int (dc_Metadata chunk ''page'')"

definition page_numbers :: "DocumentChunk list \<Rightarrow> int list" where
  "page_numbers chunks = List.map_filter chunk_page chunks"

section \<open>internal/agent/document/image: the local OCR and vision extractor\<close>









section \<open>internal/agent/document/image: the cloud OCR extractor\<close>

text \<open>The blocks of the document-analysis service, with the fields the extractor reads. A
  call of \<open>Process\<close> is determined by what reading the input and the service answer.\<close>

datatype BlockType =
    BlockTypeKeyValueSet | BlockTypePage | BlockTypeLine | BlockTypeWord | BlockTypeTable
  | BlockTypeCell | BlockTypeOther string

datatype EntityType = EntityTypeKey | EntityTypeValue | EntityTypeOther string





text \<open>\<open>strings.Join\<close>.\<close>

fun Join :: "string list \<Rightarrow> string \<Rightarrow> string" where
  "Join [] sep = []"
| "Join [s] sep = s"
| "Join (s # rest) sep = s @ sep @ Join rest sep"


record Table =
  tb_Content :: string
  tb_Rows :: int
  tb_Cols :: int
  tb_Cells :: "string list list"







record FormField =
  ff_Key :: string
  ff_Value :: string






definition text_chunk_of :: "string list \<Rightarrow> DocumentChunk" where
  "text_chunk_of textBlocks =
     \<lparr>dc_Content = Join textBlocks [CHR 0x0A],
      dc_Metadata = [''source'' \<mapsto> VString ''textract'', ''type'' \<mapsto> VString ''text'']\<rparr>"

definition table_chunk :: "Table \<Rightarrow> DocumentChunk" where
  "table_chunk table =
     \<lparr>dc_Content = tb_Content table,
      dc_Metadata = [''source'' \<mapsto> VString ''textract'', ''type'' \<mapsto> VString ''table'',
                     ''rows'' \<mapsto> VInt (tb_Rows table), ''cols'' \<mapsto> VInt (tb_Cols table)]\<rparr>"

definition form_chunk :: "FormField \<Rightarrow> DocumentChunk" where
  "form_chunk form =
     \<lparr>dc_Content = ff_Key form @ '': '' @ ff_Value form,
      dc_Metadata = [''source'' \<mapsto> VString ''textract'', ''type'' \<mapsto> VString ''form'',
                     ''key'' \<mapsto> VString (ff_Key form)]\<rparr>"


definition is_form_chunk :: "DocumentChunk \<Rightarrow> bool" where
  "is_form_chunk chunk \<longleftrightarrow> dc_Metadata chunk ''type'' = Some (VString ''form'')"

section \<open>internal/agent/document/image: the adaptive threshold preprocessor\<close>

text \<open>
  The preprocessor works on \<open>imaging.Grayscale(img)\<close>, read through \<open>color.GrayModel\<close>:
  a rectangle of bounds and an 8-bit gray value for each point. The result is a gray image
  of the same bounds whose points are \<open>color.Black\<close> (0) or \<open>color.White\<close> (255); each
  point is written by one iteration of the loops, so the result is given point by point.
\<close>

record GrayImage =
  gi_MinX :: int
  gi_MinY :: int
  gi_MaxX :: int
  gi_MaxY :: int
  gi_Y :: "int \<Rightarrow> int \<Rightarrow> 8 word"

definition in_bounds :: "GrayImage \<Rightarrow> int \<Rightarrow> int \<Rightarrow> bool" where
  "in_bounds img nx ny \<longleftrightarrow>
     nx \<ge> gi_MinX img \<and> nx < gi_MaxX img \<and> ny \<ge> gi_MinY img \<and> ny < gi_MaxY img"

text \<open>\<open>halfBlock := p.blockSize / 2\<close>: Go's integer division truncates towards zero.\<close>

definition halfBlock :: "int \<Rightarrow> int" where
  "halfBlock blockSize = sgn blockSize * (\<bar>blockSize\<bar> div 2)"

text \<open>The two inner loops over \<open>dy\<close> and \<open>dx\<close>, on the variables \<open>sum\<close> and
  \<open>count\<close>.\<close>

definition window_sum :: "GrayImage \<Rightarrow> int \<Rightarrow> int \<Rightarrow> int \<Rightarrow> int \<times> int" where
  "window_sum grayImg half x y =
     fold (\<lambda>dy. fold (\<lambda>dx (sum, count).
                         let nx = x + dx; ny = y + dy
                         in if in_bounds grayImg nx ny
                            then (sum + uint (gi_Y grayImg nx ny), count + 1)
                            else (sum, count))
                     [- half..half])
          [- half..half] (0, 0)"

definition Black :: "8 word" where "Black = 0"
definition White :: "8 word" where "White = 255"

text \<open>
  The \<open>float64\<close> arithmetic of the loop body: the conversion of an integer (of \<open>sum\<close>,
  of \<open>count\<close> and of the 8-bit \<open>pixel\<close>), division, subtraction and the comparison
  \<open><\<close>. IEEE 754 rounding is not spelled out here; the operations are taken as they are,
  over whatever type \<open>'f\<close> stands for \<open>float64\<close>, and every property below holds whatever
  they are.
\<close>

record 'f float64_ops =
  f_of_int :: "int \<Rightarrow> 'f"
  f_div :: "'f \<Rightarrow> 'f \<Rightarrow> 'f"
  f_sub :: "'f \<Rightarrow> 'f \<Rightarrow> 'f"
  f_less :: "'f \<Rightarrow> 'f \<Rightarrow> bool"

text \<open>The body of the loops over \<open>y\<close> and \<open>x\<close>: the value written at \<open>(x, y)\<close> of the
  result, which starts out white everywhere.\<close>

definition threshold_pixel ::
  "'f float64_ops \<Rightarrow> int \<Rightarrow> 'f \<Rightarrow> GrayImage \<Rightarrow> int \<Rightarrow> int \<Rightarrow> 8 word" where
  "threshold_pixel ops blockSize constant grayImg x y =
     (let (sum, count) = window_sum grayImg (halfBlock blockSize) x y
      in if count > 0 then
           (let mean = f_div ops (f_of_int ops sum) (f_of_int ops count);
                pixel = gi_Y grayImg x y
            in if f_less ops (f_of_int ops (uint pixel)) (f_sub ops mean constant)
               then Black else White)
         else White)"

definition Process_threshold ::
  "'f float64_ops \<Rightarrow> int \<Rightarrow> 'f \<Rightarrow> GrayImage option \<Rightarrow> error + GrayImage" where
  "Process_threshold ops blockSize constant img =
     (case img of
        None \<Rightarrow> Inl (Errorf ''input image is nil'' [])
      | Some grayImg \<Rightarrow>
          Inr (grayImg\<lparr>gi_Y := (\<lambda>x y. if in_bounds grayImg x y
                                     then threshold_pixel ops blockSize constant grayImg x y
                                     else 0)\<rparr>))"

text \<open>
  The specification's words: the mean of a \<open>side \<times> side\<close> window, here the one whose
  first column is \<open>x0\<close> and whose first row is \<open>y0\<close>, clipped at the image border; black
  iff the pixel is strictly below the mean minus the constant, the mean being the sum of
  the window's gray values divided by their number, in the arithmetic of the code.
  \<open>spec_threshold\<close> takes the window of side \<open>blockSize\<close> centred at the pixel.
\<close>

definition window_pixels :: "int \<Rightarrow> int \<Rightarrow> int \<Rightarrow> GrayImage \<Rightarrow> (int \<times> int) list" where
  "window_pixels side x0 y0 grayImg =
     [(nx, ny). ny \<leftarrow> [y0..y0 + side - 1], nx \<leftarrow> [x0..x0 + side - 1],
                in_bounds grayImg nx ny]"

definition window_mean_threshold ::
  "'f float64_ops \<Rightarrow> int \<Rightarrow> int \<Rightarrow> int \<Rightarrow> 'f \<Rightarrow> GrayImage \<Rightarrow> int \<Rightarrow> int \<Rightarrow> 8 word" where
  "window_mean_threshold ops side x0 y0 constant grayImg x y =
     (let window = window_pixels side x0 y0 grayImg;
          mean = f_div ops
                   (f_of_int ops (sum_list (map (\<lambda>(nx, ny). uint (gi_Y grayImg nx ny)) window)))
                   (f_of_int ops (int (length window)))
      in if f_less ops (f_of_int ops (uint (gi_Y grayImg x y))) (f_sub ops mean constant)
         then Black else White)"

definition spec_threshold ::
  "'f float64_ops \<Rightarrow> int \<Rightarrow> 'f \<Rightarrow> GrayImage \<Rightarrow> int \<Rightarrow> int \<Rightarrow> 8 word" where
  "spec_threshold ops blockSize constant grayImg x y =
     window_mean_threshold ops blockSize
       (x - (blockSize - 1) div 2) (y - (blockSize - 1) div 2) constant grayImg x y"

section \<open>Example inputs\<close>

text \<open>A broker in which task \<open>t1\<close> is active in the queue \<open>home\<close>, with an empty
  sidecar store; and a service on top of it.\<close>

definition example_info :: "TaskState \<Rightarrow> TaskInfo" where
  "example_info st = \<lparr>ti_ID = ''t1'', ti_State = st, ti_NextProcessAt = 7,
                      ti_CompletedAt = 0, ti_LastErr = []\<rparr>"

definition example_queue :: "string \<Rightarrow> queue_deps" where
  "example_queue home =
     \<lparr>marshal_task = (\<lambda>t. Inr ''{task}''),
      marshal_status = (\<lambda>s. Inr ''{status}''),
      unmarshal_status = (\<lambda>d. Inl ''unexpected end of JSON input''),
      client_EnqueueContext = (\<lambda>t. Inr (example_info TaskStateScheduled)),
      inspector_GetTaskInfo =
        (\<lambda>queueName taskID.
           if queueName = home \<and> taskID = ''t1'' then Inr (example_info TaskStateActive)
           else Inl ''asynq: task not found''),
      redis_Get = (\<lambda>key. RedisNil),
      redis_Set = (\<lambda>key data ttl. None),
      time_Now = 9\<rparr>"

text \<open>On a string of ASCII characters \<open>strings.ToLower\<close> moves \<open>A\<close>..\<open>Z\<close> to
  \<open>a\<close>..\<open>z\<close> and keeps every other byte; the file names of the examples are ASCII.\<close>

definition ascii_lower_byte :: "char \<Rightarrow> char" where
  "ascii_lower_byte c =
     (if 65 \<le> (of_char c :: nat) \<and> (of_char c :: nat) \<le> 90
      then char_of ((of_char c :: nat) + 32) else c)"

definition ascii_ToLower :: "string \<Rightarrow> string" where
  "ascii_ToLower s = map ascii_lower_byte s"

definition example_service :: service_deps where
  "example_service =
     \<lparr>sd_queue = example_queue ''low'',
      strings_ToLower = ascii_ToLower,
      storage_Store = (\<lambda>key bytes. Inr key),
      uuid_New = ''t1'',
      now_CreatedAt = 1, now_UpdatedAt = 2, now_StartedAt = 3\<rparr>"

definition example_task :: "int \<Rightarrow> Task" where
  "example_task priority =
     \<lparr>t_ID = ''t1'', t_Type = ''document:process'', t_Priority = priority,
      t_Payload = Map.empty, t_Metadata = Map.empty, t_CreatedAt = 1\<rparr>"

definition example_result :: ProcessingTask where
  "example_result =
     \<lparr>pt_ID = ''t1'', pt_Status = StatusPending, pt_Type = ''document:process'',
      pt_Priority = 0, pt_Progress = 0, pt_Error = [],
      pt_Metadata = [''filename'' \<mapsto> ''scan.PDF'', ''size'' \<mapsto> Itoa 4,
                     ''type'' \<mapsto> Ext ''scan.PDF''],
      pt_CreatedAt = 1, pt_UpdatedAt = 2\<rparr>"


text \<open>A text chunk as the cloud OCR extractor emits it, and an OCR chunk as the local
  extractor emits it.\<close>

definition text_chunk :: DocumentChunk where
  "text_chunk = \<lparr>dc_Content = ''Invoice 42'',
                 dc_Metadata = [''source'' \<mapsto> VString ''textract'', ''type'' \<mapsto> VString ''text'']\<rparr>"

definition ocr_chunk :: DocumentChunk where
  "ocr_chunk = \<lparr>dc_Content = ''Invoice 42'',
                dc_Metadata = [''source'' \<mapsto> VString ''tesseract'', ''confidence'' \<mapsto> VFloat64 90,
                               ''regions'' \<mapsto> VMaps []]\<rparr>"

text \<open>A PDF of two pages of text, and the chunks of a run in which the worker of page 2
  sends first.\<close>

definition two_pages :: pdf_file where
  "two_pages = \<lparr>ReadAll = Inr ''%PDF-1.4'', NewReader = Inr [PlainText ''a'', PlainText ''b''],
                Sum256_hex = ''ab12''\<rparr>"

definition second_page_first :: "DocumentChunk list" where
  "second_page_first = [page_chunk ''ab12'' 2 ''b'', page_chunk ''ab12'' 1 ''a'']"











text \<open>
  A 3 \<times> 3 image: a dark centre, bright corners, black edges. Its windows are evaluated in
  exact arithmetic on the rationals. \<open>float64\<close> arithmetic decides the comparisons of
  these examples the same way: 200 / 4 is exactly 50, 650 / 9 rounds to a number between
  72 and 73, subtracting 0 changes nothing, and the pixel compared is 50.
\<close>

definition exact_arithmetic :: "rat float64_ops" where
  "exact_arithmetic = \<lparr>f_of_int = of_int, f_div = (/), f_sub = (-), f_less = (<)\<rparr>"

definition dot_in_corners :: GrayImage where
  "dot_in_corners =
     \<lparr>gi_MinX = 0, gi_MinY = 0, gi_MaxX = 3, gi_MaxY = 3,
      gi_Y = (\<lambda>x y. if x = 1 \<and> y = 1 then 50 else if x \<noteq> 1 \<and> y \<noteq> 1 then 150 else 0)\<rparr>"

section \<open>Properties of the task queue\<close>

text \<open>
  C6. Whenever the task can be serialised, \<open>Enqueue\<close> submits exactly one broker task, and
  the only queue option it carries names \<open>critical\<close> when the priority is 1, \<open>default\<close>
  when it is 2 and \<open>low\<close> for every other priority.
\<close>

theorem Enqueue_routes_by_priority:
  assumes "marshal_task q task = Inr payload"
  shows "\<exists>t. fst (Enqueue q task) = [ClientEnqueue t] \<and>
           (\<forall>name. Queue name \<in> set (at_opts t) \<longleftrightarrow>
              name = (if t_Priority task = 1 then ''critical''
                      else if t_Priority task = 2 then ''default'' else ''low''))"
  using assms
  by (auto simp: Enqueue_def Enqueue_opts_def Let_def split: sum.splits)

theorem Enqueue_routes_by_priority_witness:
  "marshal_task (example_queue ''low'') (example_task 1) = Inr ''{task}'' \<and>
   (\<exists>t. fst (Enqueue (example_queue ''low'') (example_task 1)) = [ClientEnqueue t] \<and>
      (\<forall>name. Queue name \<in> set (at_opts t) \<longleftrightarrow> name = ''critical''))"
  using Enqueue_routes_by_priority [of "example_queue ''low''" "example_task 1" "''{task}''"]
  by (simp add: example_queue_def example_task_def)

text \<open>The parts of the status lookup that do not depend on where the task is queued: a
  stored status that decodes is returned as it is, and a task found in the first queue is
  projected by \<open>convertAsynqStatus\<close>.\<close>

lemma GetTaskStatus_hit:
  "redis_Get q (status_key taskID) = RedisBytes data \<Longrightarrow> unmarshal_status q data = Inr status
     \<Longrightarrow> GetTaskStatus q taskID = ([], Inr status)"
  by (simp add: GetTaskStatus_def)

lemma GetTaskStatus_critical:
  "redis_Get q (status_key taskID) = RedisNil \<Longrightarrow>
   inspector_GetTaskInfo q ''critical'' taskID = Inr info \<Longrightarrow>
   snd (GetTaskStatus q taskID) = Inr (convertAsynqStatus q info)"
  by (simp add: GetTaskStatus_def Let_def)

lemma convertAsynqStatus_projection:
  "ts_Status (convertAsynqStatus q info) =
     (case ti_State info of
        TaskStatePending \<Rightarrow> ''pending'' | TaskStateActive \<Rightarrow> ''running''
      | TaskStateCompleted \<Rightarrow> ''completed'' | TaskStateRetry \<Rightarrow> ''failed'' | _ \<Rightarrow> [])"
  "ti_State info = TaskStateCompleted \<Longrightarrow> ts_Progress (convertAsynqStatus q info) = 1"
  "ti_State info = TaskStateRetry \<Longrightarrow> ts_Error (convertAsynqStatus q info) = ti_LastErr info"
  by (simp_all add: convertAsynqStatus_def split: TaskState.splits)

text \<open>Once the lookup in \<open>critical\<close> has failed, \<open>lastErr\<close> stays set, so the call fails
  whatever the other two queues answer.\<close>

lemma GetTaskStatus_not_critical:
  "redis_Get q (status_key taskID) = RedisNil \<Longrightarrow>
   inspector_GetTaskInfo q ''critical'' taskID = Inl e \<Longrightarrow>
   \<exists>err. GetTaskStatus q taskID = ([], Inl err)"
  by (auto simp: GetTaskStatus_def Let_def split: sum.splits)

text \<open>
  C3. With nothing stored under \<open>task_status:t1\<close> and task \<open>t1\<close> active in the queue
  \<open>low\<close>, \<open>GetTaskStatus\<close> does not answer \<open>running\<close>: it fails with "task not found in any
  queue", carrying the error of the lookup in \<open>default\<close>.
\<close>

theorem GetTaskStatus_task_in_low_queue:
  "GetTaskStatus (example_queue ''low'') ''t1'' =
     ([], Inl (Errorf ''task not found in any queue: %w''
                 [ArgW (Foreign ''asynq: task not found'')]))"
  by (simp add: GetTaskStatus_def example_queue_def status_key_def)

section \<open>Properties of the ingest service\<close>

text \<open>
  C9. Whenever the queue reports the status string \<open>running\<close> for a task,
  \<open>GetProcessingStatus\<close> returns a task whose status is \<open>pending\<close>, not \<open>running\<close>.
\<close>

theorem GetProcessingStatus_running_is_pending:
  assumes "snd (GetTaskStatus q taskID) = Inr status" and "ts_Status status = ''running''"
  shows "\<exists>task. snd (GetProcessingStatus q taskID) = Inr task \<and>
           pt_Status task = StatusPending \<and> pt_Status task \<noteq> StatusRunning"
  using assms
  by (cases "GetTaskStatus q taskID")
     (auto simp: GetProcessingStatus_def StatusPending_def StatusRunning_def)

theorem GetProcessingStatus_running_is_pending_witness:
  "snd (GetTaskStatus (example_queue ''critical'') ''t1'') =
     Inr (convertAsynqStatus (example_queue ''critical'') (example_info TaskStateActive)) \<and>
   ts_Status (convertAsynqStatus (example_queue ''critical'') (example_info TaskStateActive))
     = ''running'' \<and>
   (\<exists>task. snd (GetProcessingStatus (example_queue ''critical'') ''t1'') = Inr task \<and>
           pt_Status task = StatusPending \<and> pt_Status task \<noteq> StatusRunning)"
proof -
  have a: "snd (GetTaskStatus (example_queue ''critical'') ''t1'') =
     Inr (convertAsynqStatus (example_queue ''critical'') (example_info TaskStateActive))"
    by (simp add: GetTaskStatus_def example_queue_def status_key_def Let_def)
  have b: "ts_Status (convertAsynqStatus (example_queue ''critical'')
             (example_info TaskStateActive)) = ''running''"
    by (simp add: convertAsynqStatus_def example_info_def)
  from GetProcessingStatus_running_is_pending [OF a b] a b show ?thesis by blast
qed

lemma Ext_examples:
  "ascii_ToLower (Ext ''scan.PDF'') = ''.pdf''" "ascii_ToLower (Ext ''file.exe'') = ''.exe''"
  "Ext ''scan.PDF'' = ''.PDF''" "ascii_ToLower ''.PDF'' = ''.pdf''"
  by code_simp+

text \<open>
  C7. When the size in the header exceeds \<open>MaxFileSize\<close>, or the extension of the file
  name, lower-cased by \<open>strings.ToLower\<close>, is not in \<open>AllowedTypes\<close>, \<open>ProcessFile\<close>
  returns the validation error and has issued no call to the blob store, the broker or the
  sidecar store; in every other case validation passes.
\<close>

theorem ProcessFile_validation:
  "if MaxFileSize cfg < fh_Size header \<or>
      strings_ToLower s (Ext (fh_Filename header)) \<notin> set (AllowedTypes cfg)
   then \<exists>err. validateFile (strings_ToLower s) cfg header = Some err \<and>
              ProcessFile s cfg file header = ([], Inl err)
   else validateFile (strings_ToLower s) cfg header = None"
  by (auto simp: validateFile_def ProcessFile_def Let_def)

theorem ProcessFile_validation_witness:
  "strings_ToLower example_service
      (Ext (fh_Filename \<lparr>fh_Filename = ''file.exe'', fh_Size = 10\<rparr>))
      \<notin> set (AllowedTypes default_ServiceConfig) \<and>
   (\<exists>err. validateFile (strings_ToLower example_service) default_ServiceConfig
             \<lparr>fh_Filename = ''file.exe'', fh_Size = 10\<rparr> = Some err \<and>
          ProcessFile example_service default_ServiceConfig ''MZ''
             \<lparr>fh_Filename = ''file.exe'', fh_Size = 10\<rparr> = ([], Inl err)) \<and>
   \<not> (MaxFileSize default_ServiceConfig < fh_Size \<lparr>fh_Filename = ''scan.PDF'', fh_Size = 4\<rparr> \<or>
      strings_ToLower example_service
        (Ext (fh_Filename \<lparr>fh_Filename = ''scan.PDF'', fh_Size = 4\<rparr>))
        \<notin> set (AllowedTypes default_ServiceConfig)) \<and>
   validateFile (strings_ToLower example_service) default_ServiceConfig
     \<lparr>fh_Filename = ''scan.PDF'', fh_Size = 4\<rparr> = None"
proof -
  have l: "strings_ToLower example_service = ascii_ToLower"
    by (simp add: example_service_def)
  have a: "ascii_ToLower (Ext (fh_Filename \<lparr>fh_Filename = ''file.exe'', fh_Size = 10\<rparr>))
             \<notin> set (AllowedTypes default_ServiceConfig)"
    and b: "\<not> (MaxFileSize default_ServiceConfig
                 < fh_Size \<lparr>fh_Filename = ''scan.PDF'', fh_Size = 4\<rparr> \<or>
               ascii_ToLower (Ext (fh_Filename \<lparr>fh_Filename = ''scan.PDF'', fh_Size = 4\<rparr>))
                 \<notin> set (AllowedTypes default_ServiceConfig))"
    by (simp_all add: Ext_examples default_ServiceConfig_def)
  from ProcessFile_validation [of default_ServiceConfig
          "\<lparr>fh_Filename = ''file.exe'', fh_Size = 10\<rparr>" example_service "''MZ''"]
       ProcessFile_validation [of default_ServiceConfig
          "\<lparr>fh_Filename = ''scan.PDF'', fh_Size = 4\<rparr>" example_service "''%PDF''"]
       a b
  show ?thesis unfolding l by simp
qed

text \<open>
  C10. With the default configuration, of \<open>NewService\<close> given no configuration or of
  \<open>GetService\<close>, every task that \<open>ProcessFile\<close> returns has priority 0, a broker task was
  submitted for it, and every broker task submitted names the queue \<open>low\<close> and no other.
\<close>

theorem ProcessFile_default_priority_low:
  assumes "cfg = NewService None \<or> cfg = GetService"
    and "ProcessFile s cfg file header = (effs, Inr task)"
  shows "pt_Priority task = 0 \<and> (\<exists>t. ClientEnqueue t \<in> set effs) \<and>
         (\<forall>t. ClientEnqueue t \<in> set effs \<longrightarrow>
            (\<forall>name. Queue name \<in> set (at_opts t) \<longleftrightarrow> name = ''low''))"
proof -
  have p: "QueuePriority cfg = 0"
    using assms(1) by (auto simp: NewService_def GetService_def default_ServiceConfig_def)
  show ?thesis
    using assms(2) p
    by (auto simp: ProcessFile_def Enqueue_def Enqueue_opts_def SaveFinalStatus_def Let_def
             split: option.splits sum.splits prod.splits)
qed

theorem ProcessFile_default_priority_low_witness:
  "(NewService None = NewService None \<or> NewService None = GetService) \<and>
   ProcessFile example_service (NewService None) ''%PDF''
       \<lparr>fh_Filename = ''scan.PDF'', fh_Size = 4\<rparr> =
     (fst (ProcessFile example_service (NewService None) ''%PDF''
             \<lparr>fh_Filename = ''scan.PDF'', fh_Size = 4\<rparr>), Inr example_result) \<and>
   pt_Priority example_result = 0 \<and>
   (\<exists>t. ClientEnqueue t \<in> set (fst (ProcessFile example_service (NewService None) ''%PDF''
             \<lparr>fh_Filename = ''scan.PDF'', fh_Size = 4\<rparr>)))"
proof -
  have n: "NewService None = default_ServiceConfig"
    by (simp add: NewService_def)
  have v: "validateFile ascii_ToLower default_ServiceConfig
             \<lparr>fh_Filename = ''scan.PDF'', fh_Size = 4\<rparr> = None"
    by (simp add: validateFile_def default_ServiceConfig_def Ext_examples)
  have p: "QueuePriority default_ServiceConfig = 0"
    by (simp add: default_ServiceConfig_def)
  have r: "ProcessFile example_service (NewService None) ''%PDF''
       \<lparr>fh_Filename = ''scan.PDF'', fh_Size = 4\<rparr> =
     (fst (ProcessFile example_service (NewService None) ''%PDF''
             \<lparr>fh_Filename = ''scan.PDF'', fh_Size = 4\<rparr>), Inr example_result)"
    by (simp add: n ProcessFile_def v p Enqueue_def example_service_def example_queue_def
          example_result_def Let_def)
  from ProcessFile_default_priority_low [OF _ r] r show ?thesis by simp
qed

section \<open>Properties of the normalizer\<close>

text \<open>The loop of \<open>Convert\<close> in closed form, and what \<open>Convert\<close> computes from it.\<close>

lemma Convert_loop_acc:
  "Convert_loop i chunks (content, sections, tot) =
     (content @ map (\<lambda>(j, c). convert_chunk j c) (enumerate i chunks),
      sections \<union> (\<Union>c \<in> set chunks. chunk_section c),
      tot + sum_list (map confidence_or_zero chunks))"
proof (induction chunks arbitrary: i content sections tot)
  case Nil
  then show ?case by simp
next
  case (Cons c cs)
  have s: "(case as_string (dc_Metadata c ''section'') of
              Some section \<Rightarrow> insert section sections
            | None \<Rightarrow> sections) = sections \<union> chunk_section c"
    by (simp add: chunk_section_def split: option.splits)
  have t: "(case as_float64 (dc_Metadata c ''confidence'') of Some conf \<Rightarrow> tot + conf
            | None \<Rightarrow> tot) = tot + confidence_or_zero c"
    by (simp add: confidence_or_zero_def chunk_confidence_def split: option.splits)
  show ?case
    by (simp only: Convert_loop.simps Cons.IH s t) (simp add: Un_assoc add.assoc)
qed

lemma basic_info_Confidence: "dm_Confidence (basic_info first m) = dm_Confidence m"
  by (simp add: basic_info_def Let_def split: option.split)

lemma Convert_confidence:
  assumes "chunks \<noteq> []"
  shows "\<exists>doc. Convert now chunks = Inr doc \<and>
           dm_Confidence (pd_Metadata doc) =
             sum_list (map confidence_or_zero chunks) / of_nat (length chunks)"
  using assms
  by (simp add: Convert_def Convert_loop_acc Let_def basic_info_Confidence)

lemma Convert_content:
  assumes "Convert now chunks = Inr doc"
  shows "pd_Content doc = map (\<lambda>(j, c). convert_chunk j c) (enumerate 0 chunks)"
proof -
  from assms have "chunks \<noteq> []" by (auto simp: Convert_def)
  with assms show ?thesis
    by (auto simp: Convert_def Convert_loop_acc Let_def)
qed

lemma convert_chunk_Position: "cc_Position (convert_chunk i c) = int i + 1"
  by (simp add: convert_chunk_def Let_def split: option.splits)

lemma Convert_positions:
  assumes "Convert now chunks = Inr doc"
  shows "length (pd_Content doc) = length chunks \<and>
         (\<forall>i < length (pd_Content doc). cc_Position (pd_Content doc ! i) = int i + 1)"
  using assms by (simp add: Convert_content convert_chunk_Position nth_enumerate_eq)

text \<open>
  C1. \<open>Convert\<close> divides the sum of the confidences by the number of all chunks: for a
  single chunk without a confidence entry the document's confidence is 0, not 1, and for an
  OCR chunk of confidence 90 followed by a chunk without one it is 45, not 90.
\<close>

theorem Convert_confidence_divides_by_all_chunks:
  "map_sum id (dm_Confidence \<circ> pd_Metadata) (Convert now [text_chunk]) = Inr 0 \<and>
   map_sum id (dm_Confidence \<circ> pd_Metadata) (Convert now [ocr_chunk, text_chunk]) = Inr 45"
  by (simp add: Convert_def text_chunk_def ocr_chunk_def Let_def basic_info_Confidence
        as_float64_def as_string_def)

section \<open>Properties of the PDF extractor\<close>

lemma first_error_Some: "first_error err e \<noteq> None"
  by (simp add: first_error_def split: option.splits)

lemma chunk_page_page_chunk [simp]: "chunk_page (page_chunk h n t) = Some (int n)"
  by (simp add: chunk_page_def page_chunk_def as_int_def)

text \<open>A run that ends without an error started without one, and its channel holds, after
  what it held before, one chunk for each pending page that is not null.\<close>

lemma workers_pages:
  assumes "workers pages h pending chan err cancelled r" and "finite pending" and "snd r = None"
  shows "err = None \<and>
         mset (map chunk_page (fst r)) =
           mset (map chunk_page chan) +
           image_mset (\<lambda>n. Some (int n))
             (filter_mset (\<lambda>n. pages ! (n - 1) \<noteq> NullPage) (mset_set pending))"
  using assms
proof (induction rule: workers.induct)
  case (finished chan err cancelled)
  then show ?case by simp
next
  case (parent_cancelled pending chan err r)
  then show ?case by simp
next
  case (worker_cancelled n pending chan err r)
  then show ?case by (simp add: first_error_Some)
next
  case (null_page n pending chan err cancelled r)
  then show ?case by (simp add: mset_set.remove [of pending n])
next
  case (text_failed n pending e chan err r cancelled)
  then show ?case by (simp add: first_error_Some)
next
  case (chunk_sent n pending plain chan err cancelled r)
  then show ?case by (simp add: mset_set.remove [of pending n])
qed

lemma chunk_page_postProcess: "map chunk_page (postProcessChunks cs) = map chunk_page cs"
  by (simp add: postProcessChunks_def chunk_page_def)

lemma Process_pdf_pages:
  assumes "Process_pdf file (Inr out)"
  shows "\<exists>pages. NewReader file = Inr pages \<and>
           mset (map chunk_page out) =
             mset (map (\<lambda>n. Some (int n))
                    (filter (\<lambda>n. pages ! (n - 1) \<noteq> NullPage) [1..<Suc (length pages)]))"
  using assms
proof (cases rule: Process_pdf.cases)
  case (extracted content pages cancelled chunks)
  have "{1..length pages} = {1..<Suc (length pages)}" by auto
  with workers_pages [OF extracted(4)] extracted(1,3)
  show ?thesis
    by (simp add: chunk_page_postProcess less_Suc_eq_le del: upt_Suc)
qed

lemma two_pages_run: "Process_pdf two_pages (Inr second_page_first)"
proof -
  let ?pages = "[PlainText ''a'', PlainText ''b'']"
  let ?c1 = "page_chunk ''ab12'' 1 ''a''" and ?c2 = "page_chunk ''ab12'' 2 ''b''"
  have s: "{1..length ?pages} = {1, 2::nat}" by auto
  have h: "Sum256_hex two_pages = ''ab12''" "ReadAll two_pages = Inr ''%PDF-1.4''"
    "NewReader two_pages = Inr ?pages"
    by (simp_all add: two_pages_def)
  have d: "{1, 2} - {2::nat} = {1}" "{1} - {1::nat} = {}" by auto
  have m: "1 \<in> {1::nat}" "2 \<in> {1, 2::nat}" by simp_all
  have p: "?pages ! (1 - 1) = PlainText ''a''" "?pages ! (2 - 1) = PlainText ''b''"
    by simp_all
  have "workers ?pages ''ab12'' {} ([?c2] @ [?c1]) None False ([?c2, ?c1], None)"
    using workers.finished [of ?pages "''ab12''" "[?c2, ?c1]" None False] by simp
  then have w0: "workers ?pages ''ab12'' ({1} - {1}) ([?c2] @ [?c1]) None False
                   ([?c2, ?c1], None)"
    by (simp only: d)
  have "workers ?pages ''ab12'' {1} [?c2] None False ([?c2, ?c1], None)"
    by (rule workers.chunk_sent [OF m(1) p(1) w0])
  then have w1: "workers ?pages ''ab12'' ({1, 2} - {2}) ([] @ [?c2]) None False
                   ([?c2, ?c1], None)"
    by (simp only: d append_Nil)
  have "workers ?pages ''ab12'' {1, 2} [] None False ([?c2, ?c1], None)"
    by (rule workers.chunk_sent [OF m(2) p(2) w1])
  then have "workers ?pages (Sum256_hex two_pages) {1..length ?pages} [] None False
               ([?c2, ?c1], None)"
    by (simp only: s h)
  from Process_pdf.extracted [OF h(2) h(3) this]
  have "Process_pdf two_pages (Inr (postProcessChunks [?c2, ?c1]))" .
  moreover have "postProcessChunks [?c2, ?c1] = [?c2, ?c1]"
    by (simp add: postProcessChunks_def cleanText_def page_chunk_def)
  ultimately show ?thesis
    by (simp add: second_page_first_def)
qed

lemma page_numbers_second_page_first: "page_numbers second_page_first = [2, 1]"
  by (simp add: second_page_first_def page_numbers_def map_filter_def)

text \<open>
  C2 (as stated, fails). For the two-page PDF, \<open>Process\<close> can return the chunk of page 2
  before the chunk of page 1: the page numbers of the returned sequence are 2, 1, which is
  not ascending.
\<close>

theorem Process_pdf_second_page_first:
  "Process_pdf two_pages (Inr second_page_first) \<and>
   page_numbers second_page_first = [2, 1] \<and>
   \<not> sorted (page_numbers second_page_first)"
  using two_pages_run by (simp add: page_numbers_second_page_first)

text \<open>
  C2 (amended). Every document the normalizer produces has one content block per chunk,
  and block \<open>i\<close> has position \<open>i + 1\<close>. Every chunk sequence the PDF extractor returns
  carries a page number on each chunk, and these page numbers are, in some order and each
  exactly once, the numbers of the pages of \<open>1..N\<close> that are not null.
\<close>

theorem positions_and_pdf_pages:
  "(Convert now chunks = Inr doc \<longrightarrow>
      length (pd_Content doc) = length chunks \<and>
      (\<forall>i < length (pd_Content doc). cc_Position (pd_Content doc ! i) = int i + 1)) \<and>
   (Process_pdf file (Inr out) \<longrightarrow>
      length (page_numbers out) = length out \<and>
      (\<exists>pages. NewReader file = Inr pages \<and>
         mset (page_numbers out) =
           mset (map int (filter (\<lambda>n. pages ! (n - 1) \<noteq> NullPage)
                                 [1..<Suc (length pages)]))))"
proof (intro conjI impI)
  assume "Convert now chunks = Inr doc"
  from Convert_positions [OF this]
  show "length (pd_Content doc) = length chunks"
    and "\<forall>i < length (pd_Content doc). cc_Position (pd_Content doc ! i) = int i + 1"
    by simp_all
next
  assume "Process_pdf file (Inr out)"
  from Process_pdf_pages [OF this] obtain pages where
    p: "NewReader file = Inr pages"
       "mset (map chunk_page out) =
          mset (map (\<lambda>n. Some (int n))
                 (filter (\<lambda>n. pages ! (n - 1) \<noteq> NullPage) [1..<Suc (length pages)]))"
    by blast
  from p(2) have all: "\<forall>c \<in> set out. chunk_page c \<noteq> None"
    by (metis (no_types, lifting) imageE image_eqI list.set_map option.distinct(1) set_mset_mset)
  then have m: "map chunk_page out = map Some (page_numbers out)"
    by (induction out) (auto simp: page_numbers_def map_filter_def)
  then have "length (map chunk_page out) = length (map Some (page_numbers out))" by simp
  then show l: "length (page_numbers out) = length out" by simp
  have "image_mset Some (mset (page_numbers out)) =
        image_mset Some (mset (map int (filter (\<lambda>n. pages ! (n - 1) \<noteq> NullPage)
                                    [1..<Suc (length pages)])))"
    using p(2) m by (simp add: image_mset.compositionality comp_def del: upt_Suc flip: mset_map)
  then have "mset (page_numbers out) =
        mset (map int (filter (\<lambda>n. pages ! (n - 1) \<noteq> NullPage) [1..<Suc (length pages)]))"
    by (rule injD [OF multiset.inj_map [OF inj_Some]])
  with p(1) show "\<exists>pages. NewReader file = Inr pages \<and>
         mset (page_numbers out) =
           mset (map int (filter (\<lambda>n. pages ! (n - 1) \<noteq> NullPage)
                                 [1..<Suc (length pages)]))"
    by blast
qed

theorem positions_and_pdf_pages_witness:
  "Convert 5 [text_chunk] = Inr (projr (Convert 5 [text_chunk])) \<and>
   Process_pdf two_pages (Inr second_page_first) \<and>
   length (pd_Content (projr (Convert 5 [text_chunk]))) = length [text_chunk] \<and>
   length (page_numbers second_page_first) = length second_page_first"
proof -
  have a: "Convert 5 [text_chunk] = Inr (projr (Convert 5 [text_chunk]))"
    by (simp add: Convert_def Let_def)
  from positions_and_pdf_pages [of 5 "[text_chunk]" "projr (Convert 5 [text_chunk])"
         two_pages second_page_first] a two_pages_run
  show ?thesis by blast
qed

section \<open>Properties of the local OCR and vision extractor\<close>




section \<open>Properties of the cloud OCR extractor\<close>


lemma is_form_chunk_simps [simp]:
  "\<not> is_form_chunk (text_chunk_of ts)" "\<not> is_form_chunk (table_chunk t)"
  "is_form_chunk (form_chunk f)"
  by (simp_all add: is_form_chunk_def text_chunk_of_def table_chunk_def form_chunk_def)









section \<open>Properties of the adaptive threshold preprocessor\<close>

lemma map_add_upto: "map (\<lambda>d. x + d) [a..b] = [x + a..x + b]"
  by (rule nth_equalityI) auto

lemma fold_row:
  fixes f :: "int \<Rightarrow> int"
  shows "fold (\<lambda>d (s, c). if P d then (s + f d, c + 1) else (s, c)) ds (s0, c0) =
     (s0 + sum_list (map f (filter P ds)), c0 + int (length (filter P ds)))"
  by (induction ds arbitrary: s0 c0) (auto simp: add.assoc)

lemma fold_rows:
  fixes f :: "int \<Rightarrow> int \<Rightarrow> int"
  shows "fold (\<lambda>d. fold (\<lambda>e (s, c). if P d e then (s + f d e, c + 1) else (s, c)) es)
           ds (s0, c0) =
     (s0 + sum_list (map (\<lambda>d. sum_list (map (f d) (filter (P d) es))) ds),
      c0 + sum_list (map (\<lambda>d. int (length (filter (P d) es))) ds))"
  by (induction ds arbitrary: s0 c0) (simp_all add: fold_row add.assoc)

text \<open>The nested loops of the window as sums over the offsets that fall inside the image.\<close>

lemma window_sum_closed:
  "window_sum img h x y =
     (sum_list (map (\<lambda>dy. sum_list (map (\<lambda>dx. uint (gi_Y img (x + dx) (y + dy)))
                                   (filter (\<lambda>dx. in_bounds img (x + dx) (y + dy)) [- h..h])))
                [- h..h]),
      sum_list (map (\<lambda>dy. int (length (filter (\<lambda>dx. in_bounds img (x + dx) (y + dy)) [- h..h])))
                [- h..h]))"
  unfolding window_sum_def Let_def
  using fold_rows [of "\<lambda>dy dx. in_bounds img (x + dx) (y + dy)"
                      "\<lambda>dy dx. uint (gi_Y img (x + dx) (y + dy))" "[- h..h]" "[- h..h]" 0 0]
  by simp

lemma concat_map_if:
  "concat (map (\<lambda>a. if P a then [f a] else []) xs) = map f (filter P xs)"
  by (induction xs) simp_all

lemma window_list_sums:
  fixes g :: "'c \<Rightarrow> int"
  shows "sum_list (map g (concat (map (\<lambda>a. concat (map (\<lambda>b. if P b a then [k b a] else []) bs)) as))) =
           sum_list (map (\<lambda>a. sum_list (map (\<lambda>b. g (k b a)) (filter (\<lambda>b. P b a) bs))) as)"
    and "int (length (concat (map (\<lambda>a. concat (map (\<lambda>b. if P b a then [k b a] else []) bs)) as))) =
           sum_list (map (\<lambda>a. int (length (filter (\<lambda>b. P b a) bs))) as)"
  by (induction as) (simp_all add: concat_map_if comp_def)

text \<open>Whatever the block size, the loops sum and count the pixels of the window of side
  \<open>2 * halfBlock + 1\<close> centred at the pixel.\<close>

lemma window_sum_pixels:
  "window_sum img h x y =
     (sum_list (map (\<lambda>(nx, ny). uint (gi_Y img nx ny))
                 (window_pixels (2 * h + 1) (x - h) (y - h) img)),
      int (length (window_pixels (2 * h + 1) (x - h) (y - h) img)))"
proof -
  have e: "a - h + (2 * h + 1) - 1 = a + h" for a by simp
  have xs: "[x - h..x - h + (2 * h + 1) - 1] = map (\<lambda>d. x + d) [- h..h]"
    and ys: "[y - h..y - h + (2 * h + 1) - 1] = map (\<lambda>d. y + d) [- h..h]"
    unfolding e using map_add_upto [of x "- h" h] map_add_upto [of y "- h" h] by simp_all
  show ?thesis
    unfolding window_pixels_def xs ys window_sum_closed
    by (simp add: window_list_sums comp_def)
qed

lemma Process_threshold_window:
  assumes "0 \<le> halfBlock blockSize" and "in_bounds img x y"
  shows "map_sum id (\<lambda>r. gi_Y r x y) (Process_threshold ops blockSize constant (Some img)) =
           Inr (window_mean_threshold ops (2 * halfBlock blockSize + 1)
                  (x - halfBlock blockSize) (y - halfBlock blockSize) constant img x y)"
proof -
  define h where "h = halfBlock blockSize"
  have "(x, y) \<in> set (window_pixels (2 * h + 1) (x - h) (y - h) img)"
    using assms by (auto simp: h_def window_pixels_def)
  then have "0 < length (window_pixels (2 * h + 1) (x - h) (y - h) img)"
    by (rule length_pos_if_in_set)
  then have pos: "0 < snd (window_sum img h x y)"
    by (simp add: window_sum_pixels)
  show ?thesis
    using pos assms(2)
    by (simp add: Process_threshold_def threshold_pixel_def window_mean_threshold_def
          Let_def split_beta window_sum_pixels flip: h_def)
qed

lemma halfBlock_odd:
  assumes "odd blockSize" and "0 < blockSize"
  shows "halfBlock blockSize = (blockSize - 1) div 2" and "2 * halfBlock blockSize + 1 = blockSize"
    and "0 \<le> halfBlock blockSize"
proof -
  from assms(1) obtain k where k: "blockSize = 2 * k + 1" by (elim oddE)
  with assms(2) have "0 \<le> k" by simp
  with k show "halfBlock blockSize = (blockSize - 1) div 2"
    and "2 * halfBlock blockSize + 1 = blockSize" and "0 \<le> halfBlock blockSize"
    by (simp_all add: halfBlock_def)
qed

lemma in_bounds_dot: "in_bounds dot_in_corners 1 1"
  by (simp add: in_bounds_def dot_in_corners_def)

text \<open>
  C8 (as stated, fails). With block size 2 the loops at the centre of the 3 \<times> 3 example
  sum and count all nine pixels (sum 650), where a 2 \<times> 2 window has four (sum 200 for each
  of the four that contain the centre). With constant 0 the code makes the centre black;
  the mean of the 2 \<times> 2 window centred there, and of every 2 \<times> 2 window that contains the
  centre, makes it white.
\<close>

theorem adaptive_threshold_even_block:
  "window_sum dot_in_corners (halfBlock 2) 1 1 = (650, 9) \<and>
   map (\<lambda>(x0, y0). length (window_pixels 2 x0 y0 dot_in_corners))
     [(0, 0), (1, 0), (0, 1), (1, 1)] = [4, 4, 4, 4] \<and>
   map (\<lambda>(x0, y0). sum_list (map (\<lambda>(nx, ny). uint (gi_Y dot_in_corners nx ny))
                              (window_pixels 2 x0 y0 dot_in_corners)))
     [(0, 0), (1, 0), (0, 1), (1, 1)] = [200, 200, 200, 200] \<and>
   map_sum id (\<lambda>r. gi_Y r 1 1) (Process_threshold exact_arithmetic 2 0 (Some dot_in_corners))
     = Inr Black \<and>
   spec_threshold exact_arithmetic 2 0 dot_in_corners 1 1 = White \<and>
   window_mean_threshold exact_arithmetic 2 0 0 0 dot_in_corners 1 1 = White \<and>
   window_mean_threshold exact_arithmetic 2 1 0 0 dot_in_corners 1 1 = White \<and>
   window_mean_threshold exact_arithmetic 2 0 1 0 dot_in_corners 1 1 = White \<and>
   window_mean_threshold exact_arithmetic 2 1 1 0 dot_in_corners 1 1 = White \<and>
   Black \<noteq> White"
  by code_simp

text \<open>
  C8 (amended). For every odd positive block size and every pixel of the input image, the
  preprocessor outputs black iff the pixel's gray value is strictly less than the mean gray
  value of the \<open>blockSize \<times> blockSize\<close> window centred at that pixel (clipped at the image
  border) minus the constant, else white; the mean, the difference and the comparison are
  those of the code's \<open>float64\<close> arithmetic, whatever its rounding.
\<close>

theorem adaptive_threshold_odd_block:
  assumes "odd blockSize" and "0 < blockSize" and "in_bounds img x y"
  shows "map_sum id (\<lambda>r. gi_Y r x y) (Process_threshold ops blockSize constant (Some img)) =
           Inr (spec_threshold ops blockSize constant img x y)"
proof -
  note h = halfBlock_odd [OF assms(1,2)]
  from Process_threshold_window [OF h(3) assms(3)]
  show ?thesis
    unfolding h(2) unfolding h(1) spec_threshold_def .
qed

theorem adaptive_threshold_odd_block_witness:
  "odd (3::int) \<and> (0::int) < 3 \<and> in_bounds dot_in_corners 1 1 \<and>
   map_sum id (\<lambda>r. gi_Y r 1 1)
     (Process_threshold exact_arithmetic 3 0 (Some dot_in_corners)) =
     Inr (spec_threshold exact_arithmetic 3 0 dot_in_corners 1 1)"
proof -
  have a: "odd (3::int)" and b: "(0::int) < 3" by simp_all
  from adaptive_threshold_odd_block [OF a b in_bounds_dot, where ops = exact_arithmetic]
    a b in_bounds_dot
  show ?thesis by blast
qed

end
